theory Spec2Isabelle
  imports Complex_Main
begin

section \<open>Python values, dictionaries and errors\<close>

text \<open>
  The repository is Python. Its records are dataclasses and loosely shaped dictionaries.
  A dictionary whose values are scalars (a profile dictionary, the metadata of a routine,
  the dictionary of one exercise) is an association list from keys to scalar values;
  \<open>d.get(k, default)\<close> is \<open>dict_get\<close>. A Python float is a real number: the
  floats stored in a dictionary are finite, and rounding is not modelled. Where the
  similarity of two profiles computes with numbers of any size, the overflow of float
  arithmetic is modelled (see \<open>xfloat\<close> below). An exception is a value of type
  \<open>error\<close> on the left of a sum.
\<close>

datatype pyval = PInt int | PFloat real | PBool bool | PStr string | PNone

type_synonym pydict = "(string \<times> pyval) list"

datatype error = ValueError | TypeError | OverflowError | ZeroDivisionError

definition dict_get :: "pydict \<Rightarrow> string \<Rightarrow> pyval \<Rightarrow> pyval" where
  "dict_get d k dflt = (case map_of d k of None \<Rightarrow> dflt | Some v \<Rightarrow> v)"

definition dict_has :: "pydict \<Rightarrow> string \<Rightarrow> bool" where
  "dict_has d k = (case map_of d k of None \<Rightarrow> False | Some v \<Rightarrow> True)"

text \<open>The numeric reading of a value: \<open>int\<close>, \<open>float\<close> and \<open>bool\<close> (a subtype of
  \<open>int\<close>) take part in arithmetic, a string and \<open>None\<close> raise \<open>TypeError\<close>.\<close>

fun py_num :: "pyval \<Rightarrow> real option" where
  "py_num (PInt i) = Some (of_int i)"
| "py_num (PFloat x) = Some x"
| "py_num (PBool b) = Some (if b then 1 else 0)"
| "py_num (PStr s) = None"
| "py_num PNone = None"

text \<open>Python's \<open>==\<close> on scalars: numbers compare by value across the numeric types.\<close>

definition py_eq :: "pyval \<Rightarrow> pyval \<Rightarrow> bool" where
  "py_eq a b =
     (case py_num a of
        Some x \<Rightarrow> (case py_num b of Some y \<Rightarrow> x = y | None \<Rightarrow> False)
      | None \<Rightarrow> (case py_num b of Some y \<Rightarrow> False | None \<Rightarrow> a = b))"

text \<open>\<open>round(x)\<close> of Python 3 rounds a tie to the even neighbour.\<close>

definition py_round :: "real \<Rightarrow> int" where
  "py_round x =
     (let f = \<lfloor>x\<rfloor>; d = x - of_int f
      in if d < 1 / 2 then f else if 1 / 2 < d then f + 1 else if even f then f else f + 1)"

definition py_round2 :: "real \<Rightarrow> real" where
  "py_round2 x = of_int (py_round (x * 100)) / 100"

section \<open>Float arithmetic with overflow\<close>

text \<open>
  The arithmetic of \<open>calculate_profile_similarity\<close> runs on whatever numbers the two
  dictionaries hold, so a result can leave the range of a double. A result whose magnitude
  reaches \<open>FLOAT_OVERFLOW\<close> (the midpoint between the largest double and \<open>2^1024\<close>, where
  rounding to nearest goes to infinity) overflows. What happens then depends on the
  operation:
  \<^item> \<open>float - float\<close> and \<open>float + float\<close> give \<open>inf\<close> without an exception;
  \<^item> the conversion of an \<open>int\<close> operand to \<open>float\<close>, the true division \<open>int / int\<close>
    and \<open>float ** 2\<close> of a finite float raise \<open>OverflowError\<close>;
  \<^item> \<open>inf / 100\<close>, \<open>inf ** 2\<close>, \<open>math.sqrt(inf)\<close> and \<open>1 + inf\<close> are \<open>inf\<close>, and
    \<open>1 / inf\<close> is \<open>0.0\<close>.
  A result in range is the exact real number (rounding is not modelled). All values after
  \<open>abs\<close> are non-negative, so \<open>xfloat\<close> has one infinity; the floats of a dictionary
  are finite, and with finite inputs no NaN arises.
\<close>

definition FLOAT_OVERFLOW :: real where
  "FLOAT_OVERFLOW = 2 ^ 1024 - 2 ^ 970"

datatype xfloat = FFin real | FInf

text \<open>A number as arithmetic sees it: \<open>int\<close> (and \<open>bool\<close>, its subtype) or \<open>float\<close>.\<close>

datatype pynum = NInt int | NFloat real

fun py_number :: "pyval \<Rightarrow> pynum option" where
  "py_number (PInt i) = Some (NInt i)"
| "py_number (PFloat x) = Some (NFloat x)"
| "py_number (PBool b) = Some (NInt (if b then 1 else 0))"
| "py_number (PStr s) = None"
| "py_number PNone = None"

text \<open>The conversion of an \<open>int\<close> operand that meets a \<open>float\<close>.\<close>

definition int_to_float :: "int \<Rightarrow> error + real" where
  "int_to_float n =
     (if FLOAT_OVERFLOW \<le> \<bar>real_of_int n\<bar> then Inl OverflowError else Inr (real_of_int n))"

definition float_abs_sub :: "real \<Rightarrow> real \<Rightarrow> xfloat" where
  "float_abs_sub x y = (if FLOAT_OVERFLOW \<le> \<bar>x - y\<bar> then FInf else FFin \<bar>x - y\<bar>)"

text \<open>\<open>abs(a - b)\<close>: an \<open>int\<close> for two ints, a float otherwise; \<open>TypeError\<close> when an
  operand is not a number.\<close>

datatype absdiff = DInt int | DFloat xfloat

definition py_abs_diff :: "pyval \<Rightarrow> pyval \<Rightarrow> error + absdiff" where
  "py_abs_diff a b =
     (case py_number a of
        None \<Rightarrow> Inl TypeError
      | Some na \<Rightarrow>
          (case py_number b of
             None \<Rightarrow> Inl TypeError
           | Some nb \<Rightarrow>
               (case na of
                  NInt i \<Rightarrow>
                    (case nb of
                       NInt j \<Rightarrow> Inr (DInt \<bar>i - j\<bar>)
                     | NFloat y \<Rightarrow>
                         (case int_to_float i of
                            Inl e \<Rightarrow> Inl e
                          | Inr x \<Rightarrow> Inr (DFloat (float_abs_sub x y))))
                | NFloat x \<Rightarrow>
                    (case nb of
                       NInt j \<Rightarrow>
                         (case int_to_float j of
                            Inl e \<Rightarrow> Inl e
                          | Inr y \<Rightarrow> Inr (DFloat (float_abs_sub x y)))
                     | NFloat y \<Rightarrow> Inr (DFloat (float_abs_sub x y))))))"

text \<open>\<open>d / k\<close> for a difference \<open>d\<close> and a positive \<open>int\<close> constant \<open>k\<close>.\<close>

definition py_true_div :: "absdiff \<Rightarrow> int \<Rightarrow> error + xfloat" where
  "py_true_div d k =
     (case d of
        DInt n \<Rightarrow>
          if FLOAT_OVERFLOW \<le> real_of_int n / real_of_int k then Inl OverflowError
          else Inr (FFin (real_of_int n / real_of_int k))
      | DFloat FInf \<Rightarrow> Inr FInf
      | DFloat (FFin x) \<Rightarrow> Inr (FFin (x / real_of_int k)))"

text \<open>\<open>x ** 2\<close> of a float.\<close>

definition float_square :: "xfloat \<Rightarrow> error + xfloat" where
  "float_square v =
     (case v of
        FInf \<Rightarrow> Inr FInf
      | FFin x \<Rightarrow> if FLOAT_OVERFLOW \<le> x\<^sup>2 then Inl OverflowError else Inr (FFin (x\<^sup>2)))"

definition float_add :: "xfloat \<Rightarrow> xfloat \<Rightarrow> xfloat" where
  "float_add v w =
     (case v of
        FInf \<Rightarrow> FInf
      | FFin x \<Rightarrow>
          (case w of
             FInf \<Rightarrow> FInf
           | FFin y \<Rightarrow> if FLOAT_OVERFLOW \<le> x + y then FInf else FFin (x + y)))"

definition float_sqrt :: "xfloat \<Rightarrow> xfloat" where
  "float_sqrt v = (case v of FInf \<Rightarrow> FInf | FFin x \<Rightarrow> FFin (sqrt x))"

text \<open>\<open>1 / v\<close>, for the \<open>v = 1 + distance\<close> of the similarity, which is at least 1.\<close>

definition float_inverse :: "xfloat \<Rightarrow> error + real" where
  "float_inverse v =
     (case v of
        FInf \<Rightarrow> Inr 0
      | FFin x \<Rightarrow> if x = 0 then Inl ZeroDivisionError else Inr (1 / x))"

text \<open>A lower bound of a float: \<open>c \<le> v\<close>, where infinity is above every number.\<close>

definition xfloat_ge :: "real \<Rightarrow> xfloat \<Rightarrow> bool" where
  "xfloat_ge c v = (case v of FInf \<Rightarrow> True | FFin x \<Rightarrow> c \<le> x)"

text \<open>Sequencing of steps that may raise.\<close>

definition bind_err :: "error + 'a \<Rightarrow> ('a \<Rightarrow> error + 'b) \<Rightarrow> error + 'b" where
  "bind_err m f = (case m of Inl e \<Rightarrow> Inl e | Inr x \<Rightarrow> f x)"

section \<open>config.py\<close>

definition LEARNING_RATE :: real where "LEARNING_RATE = 1 / 10"
definition EXPLORATION_FACTOR :: real where "EXPLORATION_FACTOR = 2 / 10"
definition SIMILARITY_HIGH :: real where "SIMILARITY_HIGH = 85 / 100"
definition SIMILARITY_MEDIUM :: real where "SIMILARITY_MEDIUM = 70 / 100"
definition SIMILARITY_LOW :: real where "SIMILARITY_LOW = 50 / 100"
definition CONFIDENCE_HIGH :: real where "CONFIDENCE_HIGH = 80 / 100"
definition CONFIDENCE_MEDIUM :: real where "CONFIDENCE_MEDIUM = 60 / 100"
definition CONFIDENCE_LOW :: real where "CONFIDENCE_LOW = 40 / 100"
definition USERS_PER_GENERATION :: nat where "USERS_PER_GENERATION = 10"

section \<open>models: Profile, Exercise, Routine, User\<close>

record profile =
  edad :: int
  peso :: real
  altura :: real
  nivel_str :: string
  objetivo_str :: string
  dias :: int
  imc :: real
  nivel_num :: int
  objetivo_num :: int
  created_at :: string

definition profile_to_dict :: "profile \<Rightarrow> pydict" where
  "profile_to_dict p =
     [(''edad'', PInt (edad p)),
      (''peso'', PFloat (peso p)),
      (''altura'', PFloat (altura p)),
      (''imc'', PFloat (py_round2 (imc p))),
      (''nivel_num'', PInt (nivel_num p)),
      (''nivel_str'', PStr (nivel_str p)),
      (''objetivo_num'', PInt (objetivo_num p)),
      (''objetivo_str'', PStr (objetivo_str p)),
      (''dias'', PInt (dias p)),
      (''created_at'', PStr (created_at p))]"

record exercise =
  ejercicio :: string
  grupo :: string
  series :: "int option"
  repeticiones :: "string option"
  descanso :: "string option"
  duracion :: "string option"
  intensidad :: "string option"
  notas :: "string option"

text \<open>\<open>str.lower()\<close> on the ASCII letters.\<close>

definition char_lower :: "char \<Rightarrow> char" where
  "char_lower c =
     (case map_of (zip ''ABCDEFGHIJKLMNOPQRSTUVWXYZ'' ''abcdefghijklmnopqrstuvwxyz'') c of
        None \<Rightarrow> c | Some l \<Rightarrow> l)"

definition str_lower :: "string \<Rightarrow> string" where
  "str_lower s = map char_lower s"

definition is_cardio :: "exercise \<Rightarrow> bool" where
  "is_cardio ex = (str_lower (grupo ex) = ''cardio'')"

record routine =
  perfil :: profile
  rutina_semanal :: "(string \<times> exercise list) list"
  estructura :: string
  metadatos :: pydict
  routine_id :: string
  fecha_generacion :: string
  satisfaccion :: "int option"
  comentarios :: "string option"

definition is_successful :: "routine \<Rightarrow> bool" where
  "is_successful r = (case satisfaccion r of None \<Rightarrow> False | Some s \<Rightarrow> 4 \<le> s)"

text \<open>
  \<open>set_feedback\<close> mutates the routine or raises. The model returns the outcome together
  with the routine as it is after the call, so that what an exception leaves behind is
  part of the result.
\<close>

definition set_feedback :: "routine \<Rightarrow> int \<Rightarrow> string \<Rightarrow> (error + unit) \<times> routine" where
  "set_feedback r s c =
     (if \<not> (1 \<le> s \<and> s \<le> 5) then (Inl ValueError, r)
      else (Inr (), r\<lparr>satisfaccion := Some s, comentarios := Some c\<rparr>))"

text \<open>\<open>Exercise.to_dict\<close>: an optional field is a key of the dictionary only when it is
  set (\<open>series\<close>: not \<open>None\<close>; the strings: not \<open>None\<close> and not empty).\<close>

definition opt_str_entry :: "string \<Rightarrow> string option \<Rightarrow> pydict" where
  "opt_str_entry k v = (case v of None \<Rightarrow> [] | Some t \<Rightarrow> if t = [] then [] else [(k, PStr t)])"

definition exercise_to_dict :: "exercise \<Rightarrow> pydict" where
  "exercise_to_dict ex =
     [(''ejercicio'', PStr (ejercicio ex)), (''grupo'', PStr (grupo ex))]
     @ (case series ex of None \<Rightarrow> [] | Some n \<Rightarrow> [(''series'', PInt n)])
     @ opt_str_entry ''repeticiones'' (repeticiones ex)
     @ opt_str_entry ''descanso'' (descanso ex)
     @ opt_str_entry ''duracion'' (duracion ex)
     @ opt_str_entry ''intensidad'' (intensidad ex)
     @ opt_str_entry ''notas'' (notas ex)"

text \<open>
  The dictionary \<open>Routine.to_dict\<close> returns, as it is stored in the history and in the
  success patterns. A stored dictionary may lack the key \<open>rutina_semanal\<close> (the inference
  service checks for it), so that field is optional.
\<close>

record routine_dict =
  rd_routine_id :: string
  rd_perfil :: pydict
  rd_rutina_semanal :: "(string \<times> pydict list) list option"
  rd_estructura :: string
  rd_metadatos :: pydict
  rd_fecha_generacion :: string
  rd_satisfaccion :: "int option"
  rd_comentarios :: "string option"

definition routine_to_dict :: "routine \<Rightarrow> routine_dict" where
  "routine_to_dict r =
     \<lparr>rd_routine_id = routine_id r,
      rd_perfil = profile_to_dict (perfil r),
      rd_rutina_semanal =
        Some (map (\<lambda>(dia, ejercicios). (dia, map exercise_to_dict ejercicios)) (rutina_semanal r)),
      rd_estructura = estructura r,
      rd_metadatos = metadatos r,
      rd_fecha_generacion = fecha_generacion r,
      rd_satisfaccion = satisfaccion r,
      rd_comentarios = comentarios r\<rparr>"

record user =
  nombre :: string
  usr_perfil :: profile
  limitaciones :: string
  fecha_inicio :: string
  user_id :: string

section \<open>models/learning\_system.py\<close>

text \<open>
  One entry of \<open>historico_usuarios\<close>. A key the code reads with \<open>get\<close> and a default
  is optional: \<open>None\<close> is the missing key.
\<close>

record experience =
  exp_perfil :: "pydict option"
  exp_rutina_id :: string
  exp_rutina_exitosa :: "routine_dict option"
  exp_satisfaccion :: "int option"
  exp_comentarios :: string
  exp_fecha :: string

record pattern =
  pat_rutina :: routine_dict
  pat_satisfaccion :: int
  pat_fecha :: string

text \<open>
  The state of the learning system. The records of \<open>rutinas_generadas\<close> are only
  appended and counted, so their type is a parameter. \<open>patrones_exitosos\<close> and
  \<open>combinaciones_ejercicios\<close> are dictionaries updated by key.
\<close>

record 'g learning_system =
  rutinas_generadas :: "'g list"
  historico_usuarios :: "experience list"
  patrones_exitosos :: "string \<rightharpoonup> pattern list"
  combinaciones_ejercicios :: "string \<rightharpoonup> (string \<rightharpoonup> int)"
  parametros_optimos :: pydict
  generacion :: int
  tasa_aprendizaje :: real
  factor_exploracion :: real

definition new_learning_system :: "'g learning_system" where
  "new_learning_system =
     \<lparr>rutinas_generadas = [],
      historico_usuarios = [],
      patrones_exitosos = Map.empty,
      combinaciones_ejercicios = Map.empty,
      parametros_optimos = [],
      generacion = 0,
      tasa_aprendizaje = LEARNING_RATE,
      factor_exploracion = EXPLORATION_FACTOR\<rparr>"

definition add_generated_routine :: "'g learning_system \<Rightarrow> 'g \<Rightarrow> 'g learning_system" where
  "add_generated_routine ls routine_data =
     ls\<lparr>rutinas_generadas := rutinas_generadas ls @ [routine_data]\<rparr>"

text \<open>\<open>u.get('satisfaccion', 3)\<close>.\<close>

definition satisfaccion_or :: "int \<Rightarrow> experience \<Rightarrow> int" where
  "satisfaccion_or dflt u = (case exp_satisfaccion u of None \<Rightarrow> dflt | Some s \<Rightarrow> s)"

text \<open>\<open>xs[-10:]\<close>: the last ten elements, the whole list when it is shorter.\<close>

definition last_n :: "nat \<Rightarrow> 'a list \<Rightarrow> 'a list" where
  "last_n n xs = drop (length xs - n) xs"

definition evolve_generation :: "'g learning_system \<Rightarrow> 'g learning_system" where
  "evolve_generation ls =
     (let ls1 = ls\<lparr>generacion := generacion ls + 1\<rparr>
      in if 10 \<le> length (historico_usuarios ls1) then
           (let recent = last_n 10 (historico_usuarios ls1);
                avg_satisfaction = real_of_int (sum_list (map (satisfaccion_or 3) recent)) / 10
            in if 4 \<le> avg_satisfaction then
                 ls1\<lparr>factor_exploracion := max (1 / 10) (factor_exploracion ls1 - 1 / 100)\<rparr>
               else if avg_satisfaction \<le> 3 then
                 ls1\<lparr>factor_exploracion := min (4 / 10) (factor_exploracion ls1 + 2 / 100)\<rparr>
               else ls1)
         else ls1)"

definition add_user_experience :: "'g learning_system \<Rightarrow> experience \<Rightarrow> 'g learning_system" where
  "add_user_experience ls experience =
     (let ls1 = ls\<lparr>historico_usuarios := historico_usuarios ls @ [experience]\<rparr>
      in if length (historico_usuarios ls1) mod USERS_PER_GENERATION = 0
         then evolve_generation ls1 else ls1)"

definition add_successful_pattern ::
  "'g learning_system \<Rightarrow> string \<Rightarrow> pattern \<Rightarrow> 'g learning_system" where
  "add_successful_pattern ls key pat =
     (let ps = (case patrones_exitosos ls key of None \<Rightarrow> [] | Some l \<Rightarrow> l)
      in ls\<lparr>patrones_exitosos := (patrones_exitosos ls)(key \<mapsto> ps @ [pat])\<rparr>)"

definition increment_exercise_combination ::
  "'g learning_system \<Rightarrow> string \<Rightarrow> string \<Rightarrow> 'g learning_system" where
  "increment_exercise_combination ls g e =
     (let inner = (case combinaciones_ejercicios ls g of None \<Rightarrow> Map.empty | Some m \<Rightarrow> m);
          n = (case inner e of None \<Rightarrow> 0 | Some c \<Rightarrow> c)
      in ls\<lparr>combinaciones_ejercicios := (combinaciones_ejercicios ls)(g \<mapsto> inner(e \<mapsto> n + 1))\<rparr>)"

definition get_patterns_for_profile :: "'g learning_system \<Rightarrow> string \<Rightarrow> string \<Rightarrow> pattern list" where
  "get_patterns_for_profile ls nivel objetivo =
     (case patrones_exitosos ls (nivel @ ''_'' @ objetivo) of None \<Rightarrow> [] | Some l \<Rightarrow> l)"

text \<open>A sequence of \<open>add_user_experience\<close> calls.\<close>

definition add_user_experiences ::
  "'g learning_system \<Rightarrow> experience list \<Rightarrow> 'g learning_system" where
  "add_user_experiences ls es = foldl add_user_experience ls es"

section \<open>services/learning\_service.py\<close>

record learning_results =
  patrones_actualizados :: bool
  combinaciones_actualizadas :: bool
  exploracion_ajustada :: bool
  generacion_evolucionada :: bool

definition update_successful_patterns ::
  "'g learning_system \<Rightarrow> profile \<Rightarrow> routine \<Rightarrow> int \<Rightarrow> string \<Rightarrow> 'g learning_system" where
  "update_successful_patterns ls p r satisfaction fecha =
     add_successful_pattern ls (nivel_str p @ ''_'' @ objetivo_str p)
       \<lparr>pat_rutina = routine_to_dict r, pat_satisfaccion = satisfaction, pat_fecha = fecha\<rparr>"

text \<open>The exercises of a routine in the order the nested loops visit them.\<close>

definition all_exercises :: "routine \<Rightarrow> exercise list" where
  "all_exercises r = concat (map snd (rutina_semanal r))"

definition update_exercise_combinations :: "'g learning_system \<Rightarrow> routine \<Rightarrow> 'g learning_system" where
  "update_exercise_combinations ls r =
     foldl (\<lambda>l ex. if \<not> is_cardio ex then increment_exercise_combination l (grupo ex) (ejercicio ex) else l)
       ls (all_exercises r)"

definition adjust_exploration_factor ::
  "'g learning_system \<Rightarrow> int \<Rightarrow> routine \<Rightarrow> bool \<times> 'g learning_system" where
  "adjust_exploration_factor ls satisfaction r =
     (let mode = dict_get (metadatos r) ''modo_generacion'' (PStr ''exploracion'')
      in if 4 \<le> satisfaction \<and> py_eq mode (PStr ''explotacion'') then
           (let old_factor = factor_exploracion ls;
                ls1 = ls\<lparr>factor_exploracion := max (1 / 10) (factor_exploracion ls - 1 / 100)\<rparr>
            in (old_factor \<noteq> factor_exploracion ls1, ls1))
         else if satisfaction \<le> 2 then
           (let old_factor = factor_exploracion ls;
                ls1 = ls\<lparr>factor_exploracion := min (4 / 10) (factor_exploracion ls + 2 / 100)\<rparr>
            in (old_factor \<noteq> factor_exploracion ls1, ls1))
         else (False, ls))"

text \<open>
  \<open>process_feedback\<close>. The two calls of \<open>datetime.now()\<close> are the arguments
  \<open>fecha_exp\<close> and \<open>fecha_pat\<close>. The result carries the learning system and the routine
  as they are after the call; the only exception is the one \<open>set_feedback\<close> raises, before
  anything is changed.
\<close>

definition process_feedback ::
  "'g learning_system \<Rightarrow> user \<Rightarrow> routine \<Rightarrow> int \<Rightarrow> string \<Rightarrow> string \<Rightarrow> string
     \<Rightarrow> (error + learning_results) \<times> 'g learning_system \<times> routine" where
  "process_feedback ls u r satisfaction comments fecha_exp fecha_pat =
     (case set_feedback r satisfaction comments of
        (Inl e, r0) \<Rightarrow> (Inl e, ls, r0)
      | (Inr _, r1) \<Rightarrow>
          (let experience =
                 \<lparr>exp_perfil = Some (profile_to_dict (usr_perfil u)),
                  exp_rutina_id = routine_id r1,
                  exp_rutina_exitosa = (if is_successful r1 then Some (routine_to_dict r1) else None),
                  exp_satisfaccion = Some satisfaction,
                  exp_comentarios = comments,
                  exp_fecha = fecha_exp\<rparr>;
               ls1 = add_user_experience ls experience;
               ls2 = (if is_successful r1
                      then update_successful_patterns ls1 (usr_perfil u) r1 satisfaction fecha_pat
                      else ls1);
               ls3 = (if is_successful r1 then update_exercise_combinations ls2 r1 else ls2);
               (exploration_adjusted, ls4) = adjust_exploration_factor ls3 satisfaction r1;
               current_gen = generacion ls4
           in (Inr \<lparr>patrones_actualizados = is_successful r1,
                     combinaciones_actualizadas = is_successful r1,
                     exploracion_ajustada = exploration_adjusted,
                     generacion_evolucionada = (current_gen < generacion ls4)\<rparr>,
               ls4, r1)))"

text \<open>\<open>combinaciones_ejercicios[g][e]\<close> read as the \<open>defaultdict\<close> reads it: a count
  that was never incremented is 0.\<close>

definition combination_count :: "'g learning_system \<Rightarrow> string \<Rightarrow> string \<Rightarrow> int" where
  "combination_count ls g e =
     (case combinaciones_ejercicios ls g of
        None \<Rightarrow> 0
      | Some m \<Rightarrow> (case m e of None \<Rightarrow> 0 | Some c \<Rightarrow> c))"

text \<open>The bounds of the exploration factor.\<close>

definition exploration_in_bounds :: "'g learning_system \<Rightarrow> bool" where
  "exploration_in_bounds ls = (1 / 10 \<le> factor_exploracion ls \<and> factor_exploracion ls \<le> 4 / 10)"

section \<open>services/ai\_service.py: the metadata a generator attaches\<close>

text \<open>
  The generators draw exercises at random; of the dictionaries they return only the
  \<open>metadatos\<close> entry is modelled. \<open>_generate_exploration_routine\<close> always returns the
  first, \<open>_generate_learned_routine\<close> returns the second when patterns exist for the
  profile (\<open>cantidad_patrones\<close> of them, with confidence \<open>min(1.0, n / 10)\<close>).
\<close>

definition exploration_routine_metadatos :: pydict where
  "exploration_routine_metadatos =
     [(''modo_generacion'', PStr ''exploracion''), (''innovacion_level'', PStr ''alta'')]"

definition learned_routine_metadatos :: "nat \<Rightarrow> pydict" where
  "learned_routine_metadatos cantidad_patrones =
     [(''modo_generacion'', PStr ''aprendizaje''),
      (''basado_en'', PInt (int cantidad_patrones)),
      (''confianza'', PFloat (min 1 (real cantidad_patrones / 10)))]"

section \<open>utils/calculations.py\<close>

text \<open>
  \<open>calculate_profile_similarity\<close>. \<open>similarity_try\<close> is the body of the \<open>try\<close> block
  and \<open>similarity_distance\<close> its part up to \<open>distance\<close>. The differences are divided by
  \<open>NORMALIZATION_FACTORS\<close> (100, 20, 3, 7). An operand that is not a number raises
  \<open>TypeError\<close>, a number too large raises \<open>OverflowError\<close> or gives an infinite
  distance. The function itself catches every exception and returns 0.5 for it.
\<close>

definition normalized_diff :: "pyval \<Rightarrow> pyval \<Rightarrow> int \<Rightarrow> error + xfloat" where
  "normalized_diff v1 v2 k = bind_err (py_abs_diff v1 v2) (\<lambda>d. py_true_div d k)"

definition similarity_distance :: "pydict \<Rightarrow> pydict \<Rightarrow> error + xfloat" where
  "similarity_distance profile1 profile2 =
     (let edad1 = dict_get profile1 ''edad'' (PInt 30);
          edad2 = dict_get profile2 ''edad'' (PInt 30);
          imc1 = dict_get profile1 ''imc'' (PInt 22);
          imc2 = dict_get profile2 ''imc'' (PInt 22);
          nivel1 = dict_get profile1 ''nivel_num'' (PInt 2);
          nivel2 = dict_get profile2 ''nivel_num'' (PInt 2);
          dias1 = dict_get profile1 ''dias'' (PInt 4);
          dias2 = dict_get profile2 ''dias'' (PInt 4);
          obj1 = dict_get profile1 ''objetivo_str'' (PStr []);
          obj2 = dict_get profile2 ''objetivo_str'' (PStr []);
          diff_obj = (if py_eq obj1 obj2 then 0 else 1 :: int)
      in bind_err (normalized_diff edad1 edad2 100) (\<lambda>diff_edad.
         bind_err (normalized_diff imc1 imc2 20) (\<lambda>diff_imc.
         bind_err (normalized_diff nivel1 nivel2 3) (\<lambda>diff_nivel.
         bind_err (normalized_diff dias1 dias2 7) (\<lambda>diff_dias.
         bind_err (float_square diff_edad) (\<lambda>sq_edad.
         bind_err (float_square diff_imc) (\<lambda>sq_imc.
         bind_err (float_square diff_nivel) (\<lambda>sq_nivel.
         bind_err (float_square diff_dias) (\<lambda>sq_dias.
           Inr (float_sqrt
                 (float_add
                   (float_add
                     (float_add (float_add sq_edad sq_imc) sq_nivel)
                     (FFin (real_of_int (diff_obj\<^sup>2))))
                   sq_dias)))))))))))"

definition similarity_try :: "pydict \<Rightarrow> pydict \<Rightarrow> error + real" where
  "similarity_try profile1 profile2 =
     bind_err (similarity_distance profile1 profile2) (\<lambda>distance.
       float_inverse (float_add (FFin 1) distance))"

definition calculate_profile_similarity :: "pydict \<Rightarrow> pydict \<Rightarrow> real" where
  "calculate_profile_similarity profile1 profile2 =
     (case similarity_try profile1 profile2 of Inl e \<Rightarrow> 1 / 2 | Inr similarity \<Rightarrow> similarity)"

definition calculate_average :: "real list \<Rightarrow> real" where
  "calculate_average values = (if values = [] then 0 else sum_list values / real (length values))"

definition calculate_std_dev :: "real list \<Rightarrow> real" where
  "calculate_std_dev values =
     (if length values < 2 then 0
      else (let avg = calculate_average values;
                variance = sum_list (map (\<lambda>x. (x - avg)\<^sup>2) values) / real (length values - 1)
            in sqrt variance))"

text \<open>The factors of a prediction: a dictionary with a fixed set of keys, each of which may
  be missing.\<close>

record factors =
  promedio_similares :: "real option"
  cantidad_similares :: "int option"
  similitud_promedio :: "real option"
  ajuste_complejidad :: "real option"
  patron_existe :: "bool option"
  cantidad_patrones :: "int option"
  sin_datos :: "bool option"

definition thr_get :: "(string \<times> real) list \<Rightarrow> string \<Rightarrow> real \<Rightarrow> real" where
  "thr_get thresholds k dflt = (case map_of thresholds k of None \<Rightarrow> dflt | Some v \<Rightarrow> v)"

definition calculate_bayesian_adjustment :: "factors \<Rightarrow> (string \<times> real) list \<Rightarrow> real" where
  "calculate_bayesian_adjustment fs thresholds =
     (let a1 = (case similitud_promedio fs of
                  None \<Rightarrow> []
                | Some sim \<Rightarrow>
                    if thr_get thresholds ''similitud_alta'' SIMILARITY_HIGH < sim then [3 / 10]
                    else if thr_get thresholds ''similitud_media'' SIMILARITY_MEDIUM < sim then [1 / 10]
                    else [- (1 / 10)]);
          a2 = (case cantidad_similares fs of
                  None \<Rightarrow> []
                | Some cantidad \<Rightarrow>
                    if 5 \<le> cantidad then [2 / 10] else if 3 \<le> cantidad then [1 / 10] else []);
          a3 = (case ajuste_complejidad fs of
                  None \<Rightarrow> []
                | Some compl \<Rightarrow>
                    if 8 / 10 < compl then [2 / 10] else if 6 / 10 < compl then [0] else [- (2 / 10)]);
          a4 = (if patron_existe fs = Some True
                   \<and> 5 \<le> (case cantidad_patrones fs of None \<Rightarrow> 0 | Some n \<Rightarrow> n)
                then [3 / 10] else [])
      in sum_list (a1 @ a2 @ a3 @ a4))"

definition calculate_confidence_score :: "int \<Rightarrow> real \<Rightarrow> real option \<Rightarrow> real" where
  "calculate_confidence_score n_samples similarity_avg std_dev =
     (let c0 = 5 / 10;
          c1 = (if 10 \<le> n_samples then c0 + 3 / 10
                else if 5 \<le> n_samples then c0 + 2 / 10
                else if 3 \<le> n_samples then c0 + 1 / 10 else c0);
          c2 = (if SIMILARITY_HIGH < similarity_avg then c1 + 3 / 10
                else if SIMILARITY_MEDIUM < similarity_avg then c1 + 2 / 10
                else if SIMILARITY_LOW < similarity_avg then c1 + 1 / 10 else c1);
          c3 = (case std_dev of
                  None \<Rightarrow> c2
                | Some sd \<Rightarrow> if sd < 5 / 10 then c2 + 2 / 10 else if sd < 1 then c2 + 1 / 10 else c2)
      in min 1 c3)"

section \<open>Strings: formatting and splitting\<close>





section \<open>config.py: RoutineConfig\<close>





section \<open>services/inference\_service.py\<close>

definition umbrales :: "(string \<times> real) list" where
  "umbrales =
     [(''similitud_alta'', SIMILARITY_HIGH),
      (''similitud_media'', SIMILARITY_MEDIUM),
      (''similitud_baja'', SIMILARITY_LOW),
      (''confianza_alta'', CONFIDENCE_HIGH),
      (''confianza_media'', CONFIDENCE_MEDIUM),
      (''confianza_baja'', CONFIDENCE_LOW)]"

record similar_user =
  usuario :: experience
  similitud :: real

record prediction =
  satisfaccion_predicha :: real
  confianza :: real
  factores :: factors
  recomendacion :: bool
  usuarios_similares :: int
  metodo :: string

definition no_factors :: factors where
  "no_factors =
     \<lparr>promedio_similares = None, cantidad_similares = None, similitud_promedio = None,
      ajuste_complejidad = None, patron_existe = None, cantidad_patrones = None,
      sin_datos = None\<rparr>"

definition baseline_prediction :: prediction where
  "baseline_prediction =
     \<lparr>satisfaccion_predicha = 35 / 10,
      confianza = 3 / 10,
      factores = no_factors\<lparr>sin_datos := Some True\<rparr>,
      recomendacion = True,
      usuarios_similares = 0,
      metodo = ''baseline''\<rparr>"

text \<open>\<open>user_exp.get('perfil', {})\<close>.\<close>

definition perfil_of :: "experience \<Rightarrow> pydict" where
  "perfil_of user_exp = (case exp_perfil user_exp of None \<Rightarrow> [] | Some d \<Rightarrow> d)"

text \<open>
  \<open>_find_similar_users\<close>: the entries of the history with a non-empty profile and a
  similarity of at least the threshold, sorted by similarity, largest first (the sort is
  stable, as Python's is with \<open>reverse=True\<close>), and cut to the first ten.
\<close>

definition similar_candidates :: "'g learning_system \<Rightarrow> profile \<Rightarrow> real \<Rightarrow> similar_user list" where
  "similar_candidates ls p threshold =
     concat (map (\<lambda>user_exp.
        if perfil_of user_exp = [] then []
        else (let similarity = calculate_profile_similarity (profile_to_dict p) (perfil_of user_exp)
              in if threshold \<le> similarity
                 then [\<lparr>usuario = user_exp, similitud = similarity\<rparr>] else []))
       (historico_usuarios ls))"

definition find_similar_users :: "'g learning_system \<Rightarrow> profile \<Rightarrow> real \<Rightarrow> similar_user list" where
  "find_similar_users ls p threshold =
     take 10 (sort_key (\<lambda>x. - similitud x) (similar_candidates ls p threshold))"

definition get_total_exercises :: "routine \<Rightarrow> nat" where
  "get_total_exercises r = sum_list (map (\<lambda>(dia, exercises). length exercises) (rutina_semanal r))"

definition get_exercises_per_day :: "routine \<Rightarrow> real" where
  "get_exercises_per_day r =
     (let total_days = length (rutina_semanal r)
      in if total_days = 0 then 0 else real (get_total_exercises r) / real total_days)"

definition get_ideal_complexity :: "profile \<Rightarrow> real" where
  "get_ideal_complexity p =
     (case map_of [(''principiante'', 4), (''intermedio'', 5), (''avanzado'', 6)] (nivel_str p) of
        None \<Rightarrow> 5 | Some c \<Rightarrow> c)"

definition similar_satisfactions :: "similar_user list \<Rightarrow> real list" where
  "similar_satisfactions similar_users =
     map (\<lambda>u. real_of_int (satisfaccion_or 3 (usuario u))) similar_users"

definition analyze_satisfaction_factors ::
  "'g learning_system \<Rightarrow> profile \<Rightarrow> routine option \<Rightarrow> similar_user list \<Rightarrow> factors" where
  "analyze_satisfaction_factors ls p r similar_users =
     (let f1 = (if similar_users \<noteq> [] then
                  no_factors\<lparr>promedio_similares :=
                               Some (calculate_average (similar_satisfactions similar_users)),
                             cantidad_similares := Some (int (length similar_users)),
                             similitud_promedio :=
                               Some (calculate_average (map similitud similar_users))\<rparr>
                else
                  no_factors\<lparr>promedio_similares := Some (35 / 10),
                             cantidad_similares := Some 0,
                             similitud_promedio := Some 0\<rparr>);
          f2 = (case r of
                  Some routine \<Rightarrow>
                    (let complexity = get_exercises_per_day routine;
                         ideal_complexity = get_ideal_complexity p
                     in f1\<lparr>ajuste_complejidad :=
                              Some (1 - \<bar>complexity - ideal_complexity\<bar> / ideal_complexity)\<rparr>)
                | None \<Rightarrow> f1\<lparr>ajuste_complejidad := Some 1\<rparr>);
          patterns = get_patterns_for_profile ls (nivel_str p) (objetivo_str p)
      in f2\<lparr>patron_existe := Some (0 < length patterns),
             cantidad_patrones := Some (int (length patterns))\<rparr>)"

definition calculate_bayesian_prediction :: "similar_user list \<Rightarrow> factors \<Rightarrow> real" where
  "calculate_bayesian_prediction similar_users fs =
     (if similar_users = [] then 35 / 10
      else (let prior = calculate_average (similar_satisfactions similar_users);
                adjustment = calculate_bayesian_adjustment fs umbrales;
                posterior = prior + adjustment
            in max 1 (min 5 posterior)))"

definition calculate_prediction_confidence :: "similar_user list \<Rightarrow> factors \<Rightarrow> real" where
  "calculate_prediction_confidence similar_users fs =
     (if similar_users = [] then 3 / 10
      else (let satisfactions = similar_satisfactions similar_users;
                std_dev = (if 1 < length satisfactions then calculate_std_dev satisfactions else 1)
            in calculate_confidence_score (int (length similar_users))
                 (case similitud_promedio fs of None \<Rightarrow> 0 | Some s \<Rightarrow> s) (Some std_dev)))"

definition predict_satisfaction :: "'g learning_system \<Rightarrow> profile \<Rightarrow> routine option \<Rightarrow> prediction" where
  "predict_satisfaction ls p r =
     (let similar_users = find_similar_users ls p (7 / 10)
      in if similar_users = [] then baseline_prediction
         else (let fs = analyze_satisfaction_factors ls p r similar_users;
                   predicted_satisfaction = calculate_bayesian_prediction similar_users fs;
                   confidence = calculate_prediction_confidence similar_users fs;
                   recommend = (35 / 10 \<le> predicted_satisfaction
                                \<and> thr_get umbrales ''confianza_baja'' CONFIDENCE_LOW \<le> confidence)
               in \<lparr>satisfaccion_predicha = py_round2 predicted_satisfaction,
                   confianza = py_round2 confidence,
                   factores = fs,
                   recomendacion = recommend,
                   usuarios_similares = int (length similar_users),
                   metodo = ''bayesiano''\<rparr>))"













text \<open>
  \<open>detect_anomalies\<close>. Of a feedback dictionary only \<open>f.get('satisfaccion', 3)\<close> is read:
  an entry of the history is its optional satisfaction. The result of the early return has
  no key \<open>satisfaccion_promedio\<close>. The profile argument is not used.
\<close>

record anomaly =
  tipo :: string
  descripcion :: string
  recomendacion_anomalia :: string

record anomalies_result =
  anomalias :: "anomaly list"
  estado :: string
  satisfaccion_promedio :: "real option"

definition anomalia_tendencia_negativa :: anomaly where
  "anomalia_tendencia_negativa =
     \<lparr>tipo = ''tendencia_negativa'',
      descripcion = ''Satisfacci'' @ [char_of (195 :: nat), char_of (179 :: nat)]
                    @ ''n en descenso constante'',
      recomendacion_anomalia = ''Revisar intensidad o variedad de ejercicios''\<rparr>"

definition anomalia_caida_abrupta :: anomaly where
  "anomalia_caida_abrupta =
     \<lparr>tipo = ''caida_abrupta'',
      descripcion = ''Ca'' @ [char_of (195 :: nat), char_of (173 :: nat)] @ ''da s''
                    @ [char_of (195 :: nat), char_of (186 :: nat)] @ ''bita en satisfacci''
                    @ [char_of (195 :: nat), char_of (179 :: nat)] @ ''n'',
      recomendacion_anomalia = ''Verificar posibles lesiones o sobreentrenamiento''\<rparr>"

definition anomalia_estancamiento :: anomaly where
  "anomalia_estancamiento =
     \<lparr>tipo = ''estancamiento'',
      descripcion = ''Satisfacci'' @ [char_of (195 :: nat), char_of (179 :: nat)]
                    @ ''n estancada en nivel medio'',
      recomendacion_anomalia = ''Considerar cambio de enfoque o metodolog''
                    @ [char_of (195 :: nat), char_of (173 :: nat)] @ ''a''\<rparr>"

definition detect_anomalies :: "profile \<Rightarrow> int option list \<Rightarrow> anomalies_result" where
  "detect_anomalies p feedback_history =
     (if feedback_history = [] \<or> length feedback_history < 3 then
        \<lparr>anomalias = [], estado = ''normal'', satisfaccion_promedio = None\<rparr>
      else
        (let satisfactions = map (\<lambda>f. case f of None \<Rightarrow> 3 | Some s \<Rightarrow> s) feedback_history;
             a1 = (if 3 \<le> length satisfactions then
                     (let last_3 = last_n 3 satisfactions
                      in if \<forall>i \<in> set [0 ..< length last_3 - 1]. last_3 ! (i + 1) < last_3 ! i
                         then [anomalia_tendencia_negativa] else [])
                   else []);
             a2 = (if 2 \<le> length satisfactions then
                     (if 4 \<le> satisfactions ! (length satisfactions - 2)
                         \<and> satisfactions ! (length satisfactions - 1) \<le> 2
                      then [anomalia_caida_abrupta] else [])
                   else []);
             avg = calculate_average (map real_of_int satisfactions);
             a3 = (if 3 \<le> avg \<and> avg \<le> 35 / 10 \<and> 5 \<le> length satisfactions
                   then [anomalia_estancamiento] else []);
             anomalies = a1 @ a2 @ a3
         in \<lparr>anomalias = anomalies,
             estado = (if anomalies \<noteq> [] then ''anomalo'' else ''normal''),
             satisfaccion_promedio = Some avg\<rparr>))"

section \<open>Example data\<close>

text \<open>The profile of the end-to-end scenario, one strength day with a cardio exercise,
  and a routine as the exploitation generator tags it.\<close>

definition ejemplo_perfil :: profile where
  "ejemplo_perfil =
     \<lparr>edad = 25, peso = 70, altura = 175 / 100, nivel_str = ''intermedio'',
      objetivo_str = ''ganar_masa'', dias = 4, imc = 70 / (175 / 100)\<^sup>2,
      nivel_num = 2, objetivo_num = 2, created_at = ''2024-01-01T10:00:00''\<rparr>"

definition ejemplo_usuario :: user where
  "ejemplo_usuario =
     \<lparr>nombre = ''Ana'', usr_perfil = ejemplo_perfil, limitaciones = ''ninguna'',
      fecha_inicio = ''2024-01-01T10:00:00'', user_id = ''USER_ANA_20240101100000''\<rparr>"

definition press_banca :: exercise where
  "press_banca =
     \<lparr>ejercicio = ''Press banca'', grupo = ''pecho'', series = Some 4,
      repeticiones = Some ''8-12'', descanso = Some ''60-90s'', duracion = None,
      intensidad = None, notas = None\<rparr>"

definition trote :: exercise where
  "trote =
     \<lparr>ejercicio = ''Trote'', grupo = ''cardio'', series = None, repeticiones = None,
      descanso = None, duracion = Some ''20 min'', intensidad = Some ''moderada'',
      notas = None\<rparr>"

definition ejemplo_rutina :: routine where
  "ejemplo_rutina =
     \<lparr>perfil = ejemplo_perfil,
      rutina_semanal = [(''Dia 1'', [press_banca, trote])],
      estructura = ''upper_lower'',
      metadatos = exploration_routine_metadatos,
      routine_id = ''RUT_20240101_100000'',
      fecha_generacion = ''2024-01-01T10:00:00'',
      satisfaccion = None,
      comentarios = None\<rparr>"

definition ejemplo_experiencia :: experience where
  "ejemplo_experiencia =
     \<lparr>exp_perfil = Some (profile_to_dict ejemplo_perfil), exp_rutina_id = ''RUT_20240101_100000'',
      exp_rutina_exitosa = None, exp_satisfaccion = Some 3, exp_comentarios = [],
      exp_fecha = ''2024-01-02T09:00:00''\<rparr>"

definition ejemplo_rutina_aprendida :: routine where
  "ejemplo_rutina_aprendida = ejemplo_rutina\<lparr>metadatos := learned_routine_metadatos 3\<rparr>"

definition experiencia_mala :: experience where
  "experiencia_mala = ejemplo_experiencia\<lparr>exp_satisfaccion := Some 1\<rparr>"

text \<open>A learning system one feedback short of its first generation.\<close>

definition sistema_nueve :: "unit learning_system" where
  "sistema_nueve =
     new_learning_system\<lparr>historico_usuarios := replicate 9 experiencia_mala\<rparr>"

text \<open>A history of one user with the same body and level but another goal, who was
  satisfied.\<close>

definition perfil_fuerza :: profile where
  "perfil_fuerza = ejemplo_perfil\<lparr>objetivo_str := ''fuerza'', objetivo_num := 4\<rparr>"

definition experiencia_fuerza :: experience where
  "experiencia_fuerza =
     ejemplo_experiencia\<lparr>exp_perfil := Some (profile_to_dict perfil_fuerza),
       exp_satisfaccion := Some 5\<rparr>"

definition sistema_fuerza :: "unit learning_system" where
  "sistema_fuerza = new_learning_system\<lparr>historico_usuarios := [experiencia_fuerza]\<rparr>"

section \<open>Properties of the learning system\<close>

lemma historico_add_user_experience:
  "historico_usuarios (add_user_experience ls e) = historico_usuarios ls @ [e]"
  by (simp add: add_user_experience_def evolve_generation_def Let_def)

lemma generacion_evolve_generation:
  "generacion (evolve_generation ls) = generacion ls + 1"
  by (simp add: evolve_generation_def Let_def)

lemma generacion_add_user_experience:
  "generacion (add_user_experience ls e) =
     generacion ls + (if Suc (length (historico_usuarios ls)) mod 10 = 0 then 1 else 0)"
  by (simp add: add_user_experience_def generacion_evolve_generation USERS_PER_GENERATION_def Let_def)

lemma length_historico_experiences:
  "length (historico_usuarios (add_user_experiences ls es)) =
     length (historico_usuarios ls) + length es"
  unfolding add_user_experiences_def
  by (induction es arbitrary: ls) (simp_all add: historico_add_user_experience)

lemma generacion_experiences:
  "generacion (add_user_experiences ls es) =
     generacion ls + int ((length (historico_usuarios ls) + length es) div 10)
       - int (length (historico_usuarios ls) div 10)"
  unfolding add_user_experiences_def
proof (induction es arbitrary: ls)
  case Nil
  show ?case by simp
next
  case (Cons e es)
  have step: "Suc n div 10 = n div 10 + (if Suc n mod 10 = 0 then 1 else 0)" for n :: nat
    by (simp add: div_Suc)
  show ?case
    using step [of "length (historico_usuarios ls)"]
    by (simp add: Cons.IH historico_add_user_experience generacion_add_user_experience)
qed

text \<open>
  C2. Every call of \<open>add_user_experience\<close> raises the generation counter by exactly 1
  when it makes the length of the history a multiple of 10 and by 0 otherwise; so, from the
  empty learning system, after \<open>n\<close> calls the generation is \<open>n div 10\<close>.
\<close>

theorem generation_every_tenth_experience:
  fixes ls :: "'g learning_system"
  shows "generacion (add_user_experience ls e) =
     generacion ls + (if (length (historico_usuarios ls) + 1) mod 10 = 0 then 1 else 0)
   \<and> generacion (add_user_experiences (new_learning_system :: 'g learning_system) es)
       = int (length es div 10)"
  by (simp add: generacion_add_user_experience generacion_experiences new_learning_system_def)

theorem generation_every_tenth_experience_witness:
  "generacion (add_user_experience (new_learning_system :: unit learning_system)
      ejemplo_experiencia) = 0
   \<and> generacion (add_user_experiences (new_learning_system :: unit learning_system)
      (replicate 25 ejemplo_experiencia)) = 2"
  using generation_every_tenth_experience
    [of "new_learning_system :: unit learning_system" ejemplo_experiencia
      "replicate 25 ejemplo_experiencia"]
  by (simp add: new_learning_system_def)

text \<open>
  C9. \<open>Routine.set_feedback\<close> raises (a \<open>ValueError\<close>) exactly when the satisfaction is
  outside \<open>[1, 5]\<close>. When it raises, the routine is unchanged, its \<open>satisfaccion\<close> and
  \<open>comentarios\<close> included; when the satisfaction is in \<open>[1, 5]\<close>, both fields are set to
  the given values.
\<close>

theorem set_feedback_validation:
  "(isl (fst (set_feedback r s c)) \<longleftrightarrow> \<not> (1 \<le> s \<and> s \<le> 5))
   \<and> (isl (fst (set_feedback r s c)) \<longrightarrow>
        fst (set_feedback r s c) = Inl ValueError \<and> snd (set_feedback r s c) = r)
   \<and> (1 \<le> s \<and> s \<le> 5 \<longrightarrow>
        fst (set_feedback r s c) = Inr ()
        \<and> satisfaccion (snd (set_feedback r s c)) = Some s
        \<and> comentarios (snd (set_feedback r s c)) = Some c)"
  by (simp add: set_feedback_def)

theorem set_feedback_validation_witness:
  "fst (set_feedback ejemplo_rutina 6 ''mal'') = Inl ValueError
   \<and> snd (set_feedback ejemplo_rutina 6 ''mal'') = ejemplo_rutina
   \<and> fst (set_feedback ejemplo_rutina 0 ''mal'') = Inl ValueError
   \<and> snd (set_feedback ejemplo_rutina 0 ''mal'') = ejemplo_rutina
   \<and> fst (set_feedback ejemplo_rutina 5 ''bien'') = Inr ()
   \<and> satisfaccion (snd (set_feedback ejemplo_rutina 5 ''bien'')) = Some 5
   \<and> comentarios (snd (set_feedback ejemplo_rutina 5 ''bien'')) = Some ''bien''"
  using set_feedback_validation [of ejemplo_rutina 6 "''mal''"]
    set_feedback_validation [of ejemplo_rutina 0 "''mal''"]
    set_feedback_validation [of ejemplo_rutina 5 "''bien''"]
  by simp

lemma factor_evolve_bounds:
  "exploration_in_bounds ls \<Longrightarrow> exploration_in_bounds (evolve_generation ls)"
  by (auto simp: exploration_in_bounds_def evolve_generation_def Let_def max_def min_def)

lemma factor_add_user_experience_bounds:
  "exploration_in_bounds ls \<Longrightarrow> exploration_in_bounds (add_user_experience ls e)"
proof -
  assume a: "exploration_in_bounds ls"
  have "exploration_in_bounds (ls\<lparr>historico_usuarios := historico_usuarios ls @ [e]\<rparr>)"
    using a by (simp add: exploration_in_bounds_def)
  then show ?thesis
    using factor_evolve_bounds [of "ls\<lparr>historico_usuarios := historico_usuarios ls @ [e]\<rparr>"]
    by (simp add: add_user_experience_def Let_def)
qed

lemma factor_adjust_bounds:
  "exploration_in_bounds ls \<Longrightarrow> exploration_in_bounds (snd (adjust_exploration_factor ls s r))"
  by (auto simp: exploration_in_bounds_def adjust_exploration_factor_def Let_def max_def min_def)

lemma factor_update_successful_patterns [simp]:
  "factor_exploracion (update_successful_patterns ls p r s f) = factor_exploracion ls"
  by (simp add: update_successful_patterns_def add_successful_pattern_def Let_def)

lemma factor_increment [simp]:
  "factor_exploracion (increment_exercise_combination ls g e) = factor_exploracion ls"
  by (simp add: increment_exercise_combination_def Let_def)

lemma factor_update_exercise_combinations [simp]:
  "factor_exploracion (update_exercise_combinations ls r) = factor_exploracion ls"
proof -
  have "factor_exploracion
          (foldl (\<lambda>l ex. if \<not> is_cardio ex
                   then increment_exercise_combination l (grupo ex) (ejercicio ex) else l) l0 xs)
        = factor_exploracion l0" for xs and l0 :: "'a learning_system"
    by (induction xs arbitrary: l0) simp_all
  then show ?thesis by (simp add: update_exercise_combinations_def)
qed

lemma process_feedback_rejected:
  "\<not> (1 \<le> s \<and> s \<le> 5) \<Longrightarrow> process_feedback ls u r s c f1 f2 = (Inl ValueError, ls, r)"
  by (simp add: process_feedback_def set_feedback_def)

text \<open>The states a successful call goes through.\<close>

lemma process_feedback_accepted:
  fixes ls :: "'g learning_system" and u r s c f1 f2
  assumes "1 \<le> s" and "s \<le> 5"
  defines "r1 \<equiv> r\<lparr>satisfaccion := Some s, comentarios := Some c\<rparr>"
  defines "ls1 \<equiv> add_user_experience ls
      \<lparr>exp_perfil = Some (profile_to_dict (usr_perfil u)),
       exp_rutina_id = routine_id r,
       exp_rutina_exitosa = (if 4 \<le> s then Some (routine_to_dict r1) else None),
       exp_satisfaccion = Some s,
       exp_comentarios = c,
       exp_fecha = f1\<rparr>"
  defines "ls3 \<equiv> (if 4 \<le> s
      then update_exercise_combinations (update_successful_patterns ls1 (usr_perfil u) r1 s f2) r1
      else ls1)"
  shows "snd (process_feedback ls u r s c f1 f2) = (snd (adjust_exploration_factor ls3 s r1), r1)"
  using assms(1,2) unfolding r1_def ls1_def ls3_def
  by (simp add: process_feedback_def set_feedback_def is_successful_def case_prod_beta Let_def)


lemma factor_process_feedback_bounds:
  assumes "exploration_in_bounds ls"
  shows "exploration_in_bounds (fst (snd (process_feedback ls u r s c f1 f2)))"
proof (cases "1 \<le> s \<and> s \<le> 5")
  case False
  then show ?thesis using assms by (simp add: process_feedback_rejected)
next
  case True
  let ?r1 = "r\<lparr>satisfaccion := Some s, comentarios := Some c\<rparr>"
  let ?ls1 = "add_user_experience ls
      \<lparr>exp_perfil = Some (profile_to_dict (usr_perfil u)),
       exp_rutina_id = routine_id r,
       exp_rutina_exitosa = (if 4 \<le> s then Some (routine_to_dict ?r1) else None),
       exp_satisfaccion = Some s,
       exp_comentarios = c,
       exp_fecha = f1\<rparr>"
  let ?ls3 = "if 4 \<le> s
      then update_exercise_combinations (update_successful_patterns ?ls1 (usr_perfil u) ?r1 s f2) ?r1
      else ?ls1"
  have "exploration_in_bounds ?ls1"
    using assms by (rule factor_add_user_experience_bounds)
  then have "exploration_in_bounds ?ls3"
    by (cases "4 \<le> s") (simp_all add: exploration_in_bounds_def)
  then have "exploration_in_bounds (snd (adjust_exploration_factor ?ls3 s ?r1))"
    by (rule factor_adjust_bounds)
  then show ?thesis
    using True by (simp add: process_feedback_accepted)
qed

text \<open>The tenth feedback of \<open>sistema_nueve\<close>, a bad one: the evolution of the generation
  and the per-feedback adjustment both raise the factor, from 0.2 to 0.24.\<close>

lemma evolve_sistema_nueve:
  assumes "exp_satisfaccion e = Some 1"
  shows "factor_exploracion (add_user_experience sistema_nueve e) = 22 / 100"
    and "generacion (add_user_experience sistema_nueve e) = 1"
proof -
  let ?h = "replicate 9 experiencia_mala @ [e]"
  have len: "length ?h = 10" by simp
  have recent: "last_n 10 ?h = ?h"
    unfolding last_n_def len by simp
  have one: "satisfaccion_or 3 experiencia_mala = 1" "satisfaccion_or 3 e = 1"
    using assms by (simp_all add: satisfaccion_or_def experiencia_mala_def)
  have step: "add_user_experience sistema_nueve e =
      evolve_generation (sistema_nueve\<lparr>historico_usuarios := ?h\<rparr>)"
    by (simp add: add_user_experience_def sistema_nueve_def USERS_PER_GENERATION_def)
  show "factor_exploracion (add_user_experience sistema_nueve e) = 22 / 100"
    unfolding step evolve_generation_def Let_def
    by (simp add: recent one sum_list_replicate sistema_nueve_def new_learning_system_def
        EXPLORATION_FACTOR_def)
  show "generacion (add_user_experience sistema_nueve e) = 1"
    unfolding step by (simp add: generacion_evolve_generation sistema_nueve_def new_learning_system_def)
qed

lemma both_adjustments_example:
  "factor_exploracion (fst (snd (process_feedback sistema_nueve ejemplo_usuario ejemplo_rutina 1
      ''mal'' ''2024-01-03T09:00:00'' ''2024-01-03T09:00:01''))) = 24 / 100"
proof -
  let ?e = "\<lparr>exp_perfil = Some (profile_to_dict (usr_perfil ejemplo_usuario)),
       exp_rutina_id = routine_id ejemplo_rutina,
       exp_rutina_exitosa = None,
       exp_satisfaccion = Some 1,
       exp_comentarios = ''mal'',
       exp_fecha = ''2024-01-03T09:00:00''\<rparr>"
  have f: "factor_exploracion (add_user_experience sistema_nueve ?e) = 22 / 100"
    by (rule evolve_sistema_nueve) simp
  have "fst (snd (process_feedback sistema_nueve ejemplo_usuario ejemplo_rutina 1
      ''mal'' ''2024-01-03T09:00:00'' ''2024-01-03T09:00:01''))
    = snd (adjust_exploration_factor (add_user_experience sistema_nueve ?e) 1
        (ejemplo_rutina\<lparr>satisfaccion := Some 1, comentarios := Some ''mal''\<rparr>))"
    by (simp add: process_feedback_accepted)
  then show ?thesis
    by (simp add: adjust_exploration_factor_def f)
qed

text \<open>
  C3. \<open>0.1 \<le> factor_exploracion \<le> 0.4\<close> is an invariant of the learning system: it
  holds for the initial value 0.2, and it is preserved by the per-feedback adjustment, by
  the evolution of the generation, by \<open>add_user_experience\<close> (which may evolve the
  generation) and by a whole \<open>process_feedback\<close> call, in which both may fire.
\<close>

theorem exploration_factor_bounds_invariant:
  fixes ls :: "'g learning_system"
  shows "exploration_in_bounds (new_learning_system :: 'g learning_system)
   \<and> (exploration_in_bounds ls \<longrightarrow>
        exploration_in_bounds (snd (adjust_exploration_factor ls s r))
        \<and> exploration_in_bounds (evolve_generation ls)
        \<and> exploration_in_bounds (add_user_experience ls e)
        \<and> exploration_in_bounds (fst (snd (process_feedback ls u r s c f1 f2))))"
proof -
  have "exploration_in_bounds (new_learning_system :: 'g learning_system)"
    by (simp add: exploration_in_bounds_def new_learning_system_def EXPLORATION_FACTOR_def)
  then show ?thesis
    by (simp add: factor_adjust_bounds factor_evolve_bounds factor_add_user_experience_bounds
        factor_process_feedback_bounds)
qed

lemma stores_evolve_generation [simp]:
  "patrones_exitosos (evolve_generation ls) = patrones_exitosos ls"
  "combinaciones_ejercicios (evolve_generation ls) = combinaciones_ejercicios ls"
  by (simp_all add: evolve_generation_def Let_def)

lemma stores_add_user_experience [simp]:
  "patrones_exitosos (add_user_experience ls e) = patrones_exitosos ls"
  "combinaciones_ejercicios (add_user_experience ls e) = combinaciones_ejercicios ls"
  by (simp_all add: add_user_experience_def Let_def)

lemma stores_adjust_exploration_factor [simp]:
  "patrones_exitosos (snd (adjust_exploration_factor ls s r)) = patrones_exitosos ls"
  "combinaciones_ejercicios (snd (adjust_exploration_factor ls s r)) = combinaciones_ejercicios ls"
  by (simp_all add: adjust_exploration_factor_def Let_def)

lemma combinaciones_update_successful_patterns [simp]:
  "combinaciones_ejercicios (update_successful_patterns ls p r s f) = combinaciones_ejercicios ls"
  by (simp add: update_successful_patterns_def add_successful_pattern_def Let_def)

lemma patrones_update_successful_patterns:
  "patrones_exitosos (update_successful_patterns ls p r s f) =
     (patrones_exitosos ls)(nivel_str p @ ''_'' @ objetivo_str p \<mapsto>
        get_patterns_for_profile ls (nivel_str p) (objetivo_str p)
          @ [\<lparr>pat_rutina = routine_to_dict r, pat_satisfaccion = s, pat_fecha = f\<rparr>])"
  by (simp add: update_successful_patterns_def add_successful_pattern_def
      get_patterns_for_profile_def Let_def)

lemma patrones_increment [simp]:
  "patrones_exitosos (increment_exercise_combination ls g e) = patrones_exitosos ls"
  by (simp add: increment_exercise_combination_def Let_def)

lemma count_increment:
  "combination_count (increment_exercise_combination ls g e) g' e' =
     combination_count ls g' e' + (if g' = g \<and> e' = e then 1 else 0)"
  by (simp add: combination_count_def increment_exercise_combination_def Let_def
      split: option.splits)

lemma fold_combinations:
  fixes l0 :: "'g learning_system"
  defines "step \<equiv> (\<lambda>(l :: 'g learning_system) ex.
     if \<not> is_cardio ex then increment_exercise_combination l (grupo ex) (ejercicio ex) else l)"
  shows "patrones_exitosos (foldl step l0 xs) = patrones_exitosos l0"
    and "combination_count (foldl step l0 xs) g e =
       combination_count l0 g e
         + int (length (filter (\<lambda>x. \<not> is_cardio x \<and> grupo x = g \<and> ejercicio x = e) xs))"
  unfolding step_def
  by (induction xs arbitrary: l0) (simp_all add: count_increment)

lemma patrones_update_exercise_combinations [simp]:
  "patrones_exitosos (update_exercise_combinations ls r) = patrones_exitosos ls"
  by (simp add: update_exercise_combinations_def fold_combinations(1))

lemma count_update_exercise_combinations:
  "combination_count (update_exercise_combinations ls r) g e =
     combination_count ls g e
       + int (length (filter (\<lambda>x. \<not> is_cardio x \<and> grupo x = g \<and> ejercicio x = e)
                (all_exercises r)))"
  by (simp add: update_exercise_combinations_def fold_combinations(2))

lemma count_cong:
  "combinaciones_ejercicios a = combinaciones_ejercicios b \<Longrightarrow>
     combination_count a g e = combination_count b g e"
  by (simp add: combination_count_def)

lemma all_exercises_set_feedback [simp]:
  "all_exercises (r\<lparr>satisfaccion := x, comentarios := y\<rparr>) = all_exercises r"
  by (simp add: all_exercises_def)

text \<open>
  C4. For a satisfaction in \<open>[1, 5]\<close> (any other is rejected by \<open>set_feedback\<close> before
  anything is stored), \<open>process_feedback\<close> changes \<open>patrones_exitosos\<close> if and only if
  the satisfaction is at least 4. It then appends one pattern under the key
  \<open>nivel_objetivo\<close> of the user's profile and raises the count of every non-cardio
  exercise of the routine by the number of times the routine holds it; for a satisfaction
  of at most 3 both stores are unchanged.
\<close>

theorem success_stores_updated_iff_satisfied:
  fixes ls :: "'g learning_system" and u r s c f1 f2
  assumes "1 \<le> s" and "s \<le> 5"
  defines "ls' \<equiv> fst (snd (process_feedback ls u r s c f1 f2))"
  defines "r' \<equiv> snd (snd (process_feedback ls u r s c f1 f2))"
  defines "p \<equiv> usr_perfil u"
  shows "((patrones_exitosos ls' \<noteq> patrones_exitosos ls) = (4 \<le> s))
    \<and> (4 \<le> s \<longrightarrow>
          patrones_exitosos ls' =
            (patrones_exitosos ls)(nivel_str p @ ''_'' @ objetivo_str p \<mapsto>
               get_patterns_for_profile ls (nivel_str p) (objetivo_str p)
                 @ [\<lparr>pat_rutina = routine_to_dict r', pat_satisfaccion = s, pat_fecha = f2\<rparr>])
          \<and> (\<forall>g e. combination_count ls' g e =
                 combination_count ls g e
                   + int (length (filter (\<lambda>x. \<not> is_cardio x \<and> grupo x = g \<and> ejercicio x = e)
                            (all_exercises r)))))
    \<and> (s \<le> 3 \<longrightarrow>
          patrones_exitosos ls' = patrones_exitosos ls
          \<and> combinaciones_ejercicios ls' = combinaciones_ejercicios ls)"
proof -
  let ?r1 = "r\<lparr>satisfaccion := Some s, comentarios := Some c\<rparr>"
  let ?key = "nivel_str p @ ''_'' @ objetivo_str p"
  let ?new = "get_patterns_for_profile ls (nivel_str p) (objetivo_str p)
                 @ [\<lparr>pat_rutina = routine_to_dict ?r1, pat_satisfaccion = s, pat_fecha = f2\<rparr>]"
  have r': "r' = ?r1"
    using assms(1,2) by (simp add: r'_def process_feedback_accepted)
  have low: "patrones_exitosos ls' = patrones_exitosos ls
      \<and> combinaciones_ejercicios ls' = combinaciones_ejercicios ls" if "\<not> 4 \<le> s"
    using assms(1,2) that by (simp add: ls'_def process_feedback_accepted)
  have high_p: "patrones_exitosos ls' = (patrones_exitosos ls)(?key \<mapsto> ?new)" if "4 \<le> s"
    using assms(1,2) that
    by (simp add: ls'_def p_def process_feedback_accepted patrones_update_successful_patterns
        get_patterns_for_profile_def)
  have high_c: "combination_count ls' g e =
      combination_count ls g e
        + int (length (filter (\<lambda>x. \<not> is_cardio x \<and> grupo x = g \<and> ejercicio x = e)
                 (all_exercises r)))" if "4 \<le> s" for g e
  proof -
    let ?ls1 = "add_user_experience ls
      \<lparr>exp_perfil = Some (profile_to_dict (usr_perfil u)),
       exp_rutina_id = routine_id r,
       exp_rutina_exitosa = (if 4 \<le> s then Some (routine_to_dict ?r1) else None),
       exp_satisfaccion = Some s,
       exp_comentarios = c,
       exp_fecha = f1\<rparr>"
    let ?ls2 = "update_successful_patterns ?ls1 (usr_perfil u) ?r1 s f2"
    have "combinaciones_ejercicios ls' =
        combinaciones_ejercicios (update_exercise_combinations ?ls2 ?r1)"
      using assms(1,2) that by (simp add: ls'_def process_feedback_accepted)
    then have "combination_count ls' g e =
        combination_count (update_exercise_combinations ?ls2 ?r1) g e"
      by (rule count_cong)
    also have "\<dots> = combination_count ?ls2 g e
        + int (length (filter (\<lambda>x. \<not> is_cardio x \<and> grupo x = g \<and> ejercicio x = e)
                 (all_exercises r)))"
      by (simp add: count_update_exercise_combinations)
    also have "combination_count ?ls2 g e = combination_count ls g e"
      by (rule count_cong) simp
    finally show ?thesis .
  qed
  have changed: "patrones_exitosos ls' \<noteq> patrones_exitosos ls" if "4 \<le> s"
  proof
    assume eq: "patrones_exitosos ls' = patrones_exitosos ls"
    have "patrones_exitosos ls' ?key = Some ?new"
      using high_p [OF that] by simp
    then have "patrones_exitosos ls ?key = Some ?new"
      using eq by simp
    then show False
      by (cases "patrones_exitosos ls ?key") (simp_all add: get_patterns_for_profile_def)
  qed
  show ?thesis
    using low high_p high_c changed r' by auto
qed

theorem exploration_factor_bounds_invariant_witness:
  "exploration_in_bounds sistema_nueve
   \<and> factor_exploracion (fst (snd (process_feedback sistema_nueve ejemplo_usuario
         ejemplo_rutina 1 ''mal'' ''2024-01-03T09:00:00'' ''2024-01-03T09:00:01''))) = 24 / 100
   \<and> exploration_in_bounds (fst (snd (process_feedback sistema_nueve ejemplo_usuario
         ejemplo_rutina 1 ''mal'' ''2024-01-03T09:00:00'' ''2024-01-03T09:00:01'')))"
proof -
  have h: "exploration_in_bounds sistema_nueve"
    by (simp add: exploration_in_bounds_def sistema_nueve_def new_learning_system_def
        EXPLORATION_FACTOR_def)
  show ?thesis
    using h both_adjustments_example exploration_factor_bounds_invariant
      [where ls = sistema_nueve and u = ejemplo_usuario and r = ejemplo_rutina and s = 1
         and c = "''mal''" and ?f1.0 = "''2024-01-03T09:00:00''" and ?f2.0 = "''2024-01-03T09:00:01''"]
    by simp
qed

lemma is_cardio_examples: "\<not> is_cardio press_banca" "is_cardio trote"
  by (simp_all add: is_cardio_def press_banca_def trote_def str_lower_def char_lower_def)

theorem success_stores_updated_iff_satisfied_witness:
  "patrones_exitosos (fst (snd (process_feedback (new_learning_system :: unit learning_system)
       ejemplo_usuario ejemplo_rutina 5 ''bien'' ''2024-01-03T09:00:00'' ''2024-01-03T09:00:01'')))
     ''intermedio_ganar_masa''
   = Some [\<lparr>pat_rutina = routine_to_dict
               (ejemplo_rutina\<lparr>satisfaccion := Some 5, comentarios := Some ''bien''\<rparr>),
             pat_satisfaccion = 5, pat_fecha = ''2024-01-03T09:00:01''\<rparr>]
   \<and> combination_count (fst (snd (process_feedback (new_learning_system :: unit learning_system)
       ejemplo_usuario ejemplo_rutina 5 ''bien'' ''2024-01-03T09:00:00'' ''2024-01-03T09:00:01'')))
       ''pecho'' ''Press banca'' = 1
   \<and> combination_count (fst (snd (process_feedback (new_learning_system :: unit learning_system)
       ejemplo_usuario ejemplo_rutina 5 ''bien'' ''2024-01-03T09:00:00'' ''2024-01-03T09:00:01'')))
       ''cardio'' ''Trote'' = 0
   \<and> patrones_exitosos (fst (snd (process_feedback (new_learning_system :: unit learning_system)
       ejemplo_usuario ejemplo_rutina 3 ''regular'' ''2024-01-03T09:00:00'' ''2024-01-03T09:00:01'')))
     = patrones_exitosos (new_learning_system :: unit learning_system)
   \<and> combinaciones_ejercicios (fst (snd (process_feedback (new_learning_system :: unit learning_system)
       ejemplo_usuario ejemplo_rutina 3 ''regular'' ''2024-01-03T09:00:00'' ''2024-01-03T09:00:01'')))
     = combinaciones_ejercicios (new_learning_system :: unit learning_system)"
proof -
  let ?ls5 = "fst (snd (process_feedback (new_learning_system :: unit learning_system)
       ejemplo_usuario ejemplo_rutina 5 ''bien'' ''2024-01-03T09:00:00'' ''2024-01-03T09:00:01''))"
  have r5: "snd (snd (process_feedback (new_learning_system :: unit learning_system)
       ejemplo_usuario ejemplo_rutina 5 ''bien'' ''2024-01-03T09:00:00'' ''2024-01-03T09:00:01''))
     = ejemplo_rutina\<lparr>satisfaccion := Some 5, comentarios := Some ''bien''\<rparr>"
    by (simp add: process_feedback_accepted)
  have ex: "all_exercises ejemplo_rutina = [press_banca, trote]"
    by (simp add: all_exercises_def ejemplo_rutina_def)
  have names: "ejercicio press_banca = ''Press banca''" "grupo press_banca = ''pecho''"
    by (simp_all add: press_banca_def)
  have init: "get_patterns_for_profile (new_learning_system :: unit learning_system) a b = []"
      "combination_count (new_learning_system :: unit learning_system) g e = 0" for a b g e
    by (simp_all add: get_patterns_for_profile_def combination_count_def new_learning_system_def)
  have key: "nivel_str (usr_perfil ejemplo_usuario) = ''intermedio''"
      "objetivo_str (usr_perfil ejemplo_usuario) = ''ganar_masa''"
    by (simp_all add: ejemplo_usuario_def ejemplo_perfil_def)
  note t5 = success_stores_updated_iff_satisfied
        [of 5 "new_learning_system :: unit learning_system" ejemplo_usuario ejemplo_rutina
          "''bien''" "''2024-01-03T09:00:00''" "''2024-01-03T09:00:01''"]
  note t3 = success_stores_updated_iff_satisfied
        [of 3 "new_learning_system :: unit learning_system" ejemplo_usuario ejemplo_rutina
          "''regular''" "''2024-01-03T09:00:00''" "''2024-01-03T09:00:01''"]
  have p5: "patrones_exitosos ?ls5 ''intermedio_ganar_masa''
      = Some [\<lparr>pat_rutina = routine_to_dict
               (ejemplo_rutina\<lparr>satisfaccion := Some 5, comentarios := Some ''bien''\<rparr>),
             pat_satisfaccion = 5, pat_fecha = ''2024-01-03T09:00:01''\<rparr>]"
    using t5 by (simp add: r5 init key)
  have c5: "combination_count ?ls5 g e =
      int (length (filter (\<lambda>x. \<not> is_cardio x \<and> grupo x = g \<and> ejercicio x = e)
                     [press_banca, trote]))" for g e
    using t5 by (simp add: init ex)
  have c5a: "combination_count ?ls5 ''pecho'' ''Press banca'' = 1"
    by (simp add: c5 names is_cardio_examples)
  have c5b: "combination_count ?ls5 ''cardio'' ''Trote'' = 0"
    by (simp add: c5 names is_cardio_examples)
  show ?thesis
    using t3 p5 c5a c5b by simp
qed

text \<open>The sibling path: with the tag the adjuster tests, a satisfaction of at least 4 lowers
  the factor by 0.01, not below 0.1.\<close>

lemma adjust_exploration_factor_explotacion:
  assumes "dict_get (metadatos r) ''modo_generacion'' (PStr ''exploracion'') = PStr ''explotacion''"
    and "4 \<le> s"
  shows "snd (adjust_exploration_factor ls s r) =
     ls\<lparr>factor_exploracion := max (1 / 10) (factor_exploracion ls - 1 / 100)\<rparr>"
  using assms by (simp add: adjust_exploration_factor_def py_eq_def)

text \<open>
  C1. The claim: feedback with satisfaction 5 on a routine generated in the exploitation
  (learning) mode lowers the exploration factor by 0.01 down to the floor 0.1. The code
  does not: \<open>_generate_learned_routine\<close> tags its routines \<open>'aprendizaje'\<close> while
  \<open>_adjust_exploration_factor\<close> compares the tag with \<open>'explotacion'\<close>, so the adjustment
  never fires for them. On the fresh learning system the factor stays at 0.2.
\<close>

theorem learned_routine_feedback_keeps_exploration_factor:
  fixes ls :: "'g learning_system"
  shows "adjust_exploration_factor ls 5 (r\<lparr>metadatos := learned_routine_metadatos n\<rparr>) = (False, ls)
   \<and> factor_exploracion (fst (snd (process_feedback (new_learning_system :: 'g learning_system) u
         (r\<lparr>metadatos := learned_routine_metadatos n\<rparr>) 5 c f1 f2))) = 2 / 10"
proof -
  have adj: "adjust_exploration_factor l 5 (q\<lparr>metadatos := learned_routine_metadatos n\<rparr>) = (False, l)"
    for l :: "'g learning_system" and q
    by (simp add: adjust_exploration_factor_def learned_routine_metadatos_def dict_get_def py_eq_def)
  have adj': "adjust_exploration_factor l 5
      (r\<lparr>metadatos := learned_routine_metadatos n, satisfaccion := x, comentarios := y\<rparr>) = (False, l)"
    for l :: "'g learning_system" and x y
    by (simp add: adjust_exploration_factor_def learned_routine_metadatos_def dict_get_def py_eq_def)
  have "factor_exploracion (add_user_experience (new_learning_system :: 'g learning_system) e) = 2 / 10"
    for e
    by (simp add: add_user_experience_def new_learning_system_def USERS_PER_GENERATION_def
        EXPLORATION_FACTOR_def)
  then show ?thesis
    by (simp add: adj adj' process_feedback_accepted)
qed

section \<open>Properties of the similarity and of the inference service\<close>

subsection \<open>The overflow limit\<close>

lemma float_overflow_ge: "2 ^ 1023 \<le> FLOAT_OVERFLOW"
proof -
  have "(2::real) ^ 970 \<le> 2 ^ 1023"
    by (rule power_increasing) simp_all
  moreover have "(2::real) ^ 1024 = 2 * 2 ^ 1023"
    by (simp add: power_Suc [symmetric] del: power_Suc)
  ultimately show ?thesis
    by (simp add: FLOAT_OVERFLOW_def)
qed

lemma float_overflow_lt: "FLOAT_OVERFLOW < 2 ^ 1024"
  by (simp add: FLOAT_OVERFLOW_def)

lemma float_overflow_gt_sqrt: "2 ^ 512 + 1 < FLOAT_OVERFLOW"
proof -
  have "(2::real) ^ 513 \<le> 2 ^ 1023"
    by (rule power_increasing) simp_all
  moreover have "(2::real) ^ 513 = 2 * 2 ^ 512"
    by (simp add: power_Suc [symmetric] del: power_Suc)
  moreover have "(1::real) < 2 ^ 512"
    by (rule one_less_power) simp_all
  ultimately show ?thesis
    using float_overflow_ge by linarith
qed

lemma float_overflow_small [simp]:
  "\<not> FLOAT_OVERFLOW \<le> 0" "\<not> FLOAT_OVERFLOW \<le> 1"
proof -
  have "(1::real) < 2 ^ 512"
    by (rule one_less_power) simp_all
  then have "1 < FLOAT_OVERFLOW"
    using float_overflow_gt_sqrt by linarith
  then show "\<not> FLOAT_OVERFLOW \<le> 0" "\<not> FLOAT_OVERFLOW \<le> 1"
    by simp_all
qed

subsection \<open>Steps that may raise\<close>

lemma bind_err_Inr [simp]:
  "(bind_err m f = Inr y) = (\<exists>x. m = Inr x \<and> f x = Inr y)"
  by (cases m) (simp_all add: bind_err_def)

lemma bind_err_simps [simp]:
  "bind_err (Inl e) f = Inl e" "bind_err (Inr x) f = f x"
  by (simp_all add: bind_err_def)

subsection \<open>Symmetry\<close>








subsection \<open>A profile against itself\<close>


lemma float_steps_zero [simp]:
  "float_square (FFin 0) = Inr (FFin 0)"
  "float_add (FFin 0) (FFin 0) = FFin 0"
  "float_sqrt (FFin 0) = FFin 0"
  "float_add (FFin 1) (FFin 0) = FFin 1"
  "float_inverse (FFin 1) = Inr 1"
  by (simp_all add: float_square_def float_add_def float_sqrt_def float_inverse_def)





subsection \<open>Bounds of the distance\<close>

lemma xfloat_ge_square: "float_square v = Inr w \<Longrightarrow> xfloat_ge 0 w"
  by (cases v) (auto simp: float_square_def xfloat_ge_def split: if_splits)

lemma xfloat_ge_add:
  "xfloat_ge c v \<Longrightarrow> xfloat_ge c' w \<Longrightarrow> xfloat_ge (c + c') (float_add v w)"
  by (cases v; cases w) (auto simp: float_add_def xfloat_ge_def)

lemma xfloat_ge_sqrt: "xfloat_ge c v \<Longrightarrow> xfloat_ge (sqrt c) (float_sqrt v)"
  by (cases v) (auto simp: float_sqrt_def xfloat_ge_def)

lemma float_add_finite: "float_add v w = FFin t \<Longrightarrow> t < FLOAT_OVERFLOW"
  by (cases v; cases w) (auto simp: float_add_def split: if_splits)

lemma float_sqrt_finite: "float_sqrt v = FFin d \<Longrightarrow> \<exists>t. v = FFin t \<and> d = sqrt t"
  by (cases v) (auto simp: float_sqrt_def)

text \<open>The distance is at least the goal mismatch, and a finite distance is below \<open>2^512\<close>.\<close>

lemma similarity_distance_bounds:
  assumes "similarity_distance a b = Inr dst"
  defines "m \<equiv> (if py_eq (dict_get a ''objetivo_str'' (PStr [])) (dict_get b ''objetivo_str'' (PStr []))
                 then 0 else 1 :: real)"
  shows "xfloat_ge m dst" and "dst = FFin d \<Longrightarrow> d < 2 ^ 512"
proof -
  obtain se si sn sd where
    sq: "xfloat_ge 0 se" "xfloat_ge 0 si" "xfloat_ge 0 sn" "xfloat_ge 0 sd" and
    dst: "dst = float_sqrt (float_add (float_add (float_add (float_add se si) sn) (FFin m)) sd)"
    using assms(1) unfolding similarity_distance_def Let_def m_def
    by (auto dest!: xfloat_ge_square)
  let ?total = "float_add (float_add (float_add (float_add se si) sn) (FFin m)) sd"
  have "xfloat_ge m (FFin m)"
    by (simp add: xfloat_ge_def)
  then have "xfloat_ge (0 + 0 + 0 + m + 0) ?total"
    by (intro xfloat_ge_add sq)
  then have total: "xfloat_ge m ?total"
    by simp
  have m01: "m = 0 \<or> m = 1"
    by (simp add: m_def)
  have "xfloat_ge (sqrt m) dst"
    unfolding dst using total by (rule xfloat_ge_sqrt)
  then show "xfloat_ge m dst"
    using m01 by auto
  show "d < 2 ^ 512" if fin: "dst = FFin d"
  proof -
    have "float_sqrt ?total = FFin d"
      using fin unfolding dst .
    then obtain t where t: "?total = FFin t" and d: "d = sqrt t"
      using float_sqrt_finite by blast
    have "t < FLOAT_OVERFLOW"
      using t by (rule float_add_finite)
    then have "t < (2 ^ 512)\<^sup>2"
      using float_overflow_lt by (simp add: power_even_eq [symmetric] power_mult [symmetric])
    then have lt: "sqrt t < sqrt ((2 ^ 512)\<^sup>2)"
      by (simp only: real_sqrt_less_iff)
    have p: "(0::real) \<le> 2 ^ 512"
      by (rule zero_le_power) simp
    have "sqrt ((2 ^ 512)\<^sup>2) = (2::real) ^ 512"
      by (simp only: real_sqrt_abs abs_of_nonneg [OF p])
    then show ?thesis
      using lt unfolding d by (simp only:)
  qed
qed

lemma similarity_try_finite:
  assumes "similarity_try a b = Inr s" and "similarity_distance a b = Inr (FFin d)"
  shows "s = 1 / (1 + d)" and "0 \<le> d"
proof -
  have "xfloat_ge 0 (FFin d)"
    using similarity_distance_bounds(1) [OF assms(2)]
    by (auto simp: xfloat_ge_def split: if_splits)
  then show nn: "0 \<le> d"
    by (simp add: xfloat_ge_def)
  have "d < 2 ^ 512"
    using similarity_distance_bounds(2) [OF assms(2)] by simp
  then have small: "\<not> FLOAT_OVERFLOW \<le> 1 + d"
    using float_overflow_gt_sqrt by linarith
  have "1 + d \<noteq> 0"
    using nn by linarith
  then show "s = 1 / (1 + d)"
    using assms small by (simp add: similarity_try_def float_add_def float_inverse_def)
qed

lemma similarity_try_infinite:
  assumes "similarity_distance a b = Inr FInf"
  shows "similarity_try a b = Inr 0"
  using assms by (simp add: similarity_try_def float_add_def float_inverse_def)





subsection \<open>Overflow in the distance\<close>


lemma float_steps_infinite [simp]:
  "float_square FInf = Inr FInf"
  "float_add FInf v = FInf"
  "float_add v FInf = FInf"
  "float_sqrt FInf = FInf"
  by (simp_all add: float_square_def float_add_def float_sqrt_def split: xfloat.splits)







lemma similarity_other_goal:
  assumes "\<not> py_eq (dict_get a ''objetivo_str'' (PStr [])) (dict_get b ''objetivo_str'' (PStr []))"
  shows "calculate_profile_similarity a b \<le> 1 / 2"
proof (cases "similarity_try a b")
  case (Inl e)
  then show ?thesis by (simp add: calculate_profile_similarity_def)
next
  case (Inr s)
  then obtain dst where dst: "similarity_distance a b = Inr dst"
    by (auto simp: similarity_try_def)
  show ?thesis
  proof (cases dst)
    case FInf
    then show ?thesis
      using Inr dst similarity_try_infinite [of a b] by (simp add: calculate_profile_similarity_def)
  next
    case (FFin d)
    have "xfloat_ge 1 dst"
      using similarity_distance_bounds(1) [OF dst] assms by simp
    then have "1 \<le> d"
      using FFin by (simp add: xfloat_ge_def)
    then have two: "2 \<le> 1 + d"
      by simp
    have "1 / (1 + d) \<le> 1 / 2"
      by (rule frac_le) (use two in simp_all)
    then show ?thesis
      using Inr similarity_try_finite(1) [OF Inr dst [unfolded FFin]]
      by (simp add: calculate_profile_similarity_def)
  qed
qed

lemma similarity_ejemplo_fuerza:
  "calculate_profile_similarity (profile_to_dict ejemplo_perfil) (perfil_of experiencia_fuerza) \<le> 1 / 2"
  by (rule similarity_other_goal)
    (simp add: perfil_of_def experiencia_fuerza_def ejemplo_experiencia_def perfil_fuerza_def
      ejemplo_perfil_def profile_to_dict_def dict_get_def py_eq_def)

lemma similar_candidates_members:
  assumes "x \<in> set (similar_candidates ls p t)"
  shows "usuario x \<in> set (historico_usuarios ls) \<and> perfil_of (usuario x) \<noteq> []
     \<and> t \<le> calculate_profile_similarity (profile_to_dict p) (perfil_of (usuario x))"
  using assms by (auto simp: similar_candidates_def Let_def split: if_splits)

lemma find_similar_users_members:
  assumes "x \<in> set (find_similar_users ls p t)"
  shows "usuario x \<in> set (historico_usuarios ls) \<and> perfil_of (usuario x) \<noteq> []
     \<and> t \<le> calculate_profile_similarity (profile_to_dict p) (perfil_of (usuario x))"
proof -
  have "x \<in> set (sort_key (\<lambda>x. - similitud x) (similar_candidates ls p t))"
    using assms unfolding find_similar_users_def by (rule in_set_takeD)
  then have "x \<in> set (similar_candidates ls p t)" by simp
  then show ?thesis by (rule similar_candidates_members)
qed

lemma find_similar_users_none:
  assumes "\<forall>e \<in> set (historico_usuarios ls).
     calculate_profile_similarity (profile_to_dict p) (perfil_of e) < t"
  shows "find_similar_users ls p t = []"
proof (rule ccontr)
  assume "find_similar_users ls p t \<noteq> []"
  then obtain x where "x \<in> set (find_similar_users ls p t)"
    by (cases "find_similar_users ls p t") auto
  then show False
    using find_similar_users_members [of x ls p t] assms by fastforce
qed

text \<open>
  C5. When no entry of the history reaches similarity 0.7 with the profile (in particular
  when the history is empty), \<open>predict_satisfaction\<close> returns exactly the baseline:
  predicted satisfaction 3.5, confidence 0.3, recommendation true, 0 similar users, method
  \<open>baseline\<close>.
\<close>

theorem predict_satisfaction_baseline:
  "((\<forall>e \<in> set (historico_usuarios ls).
        calculate_profile_similarity (profile_to_dict p) (perfil_of e) < 7 / 10) \<longrightarrow>
      predict_satisfaction ls p r =
        \<lparr>satisfaccion_predicha = 35 / 10, confianza = 3 / 10,
         factores = no_factors\<lparr>sin_datos := Some True\<rparr>, recomendacion = True,
         usuarios_similares = 0, metodo = ''baseline''\<rparr>)
   \<and> (historico_usuarios ls = [] \<longrightarrow>
      predict_satisfaction ls p r =
        \<lparr>satisfaccion_predicha = 35 / 10, confianza = 3 / 10,
         factores = no_factors\<lparr>sin_datos := Some True\<rparr>, recomendacion = True,
         usuarios_similares = 0, metodo = ''baseline''\<rparr>)"
proof -
  have "predict_satisfaction ls p r = baseline_prediction"
    if "\<forall>e \<in> set (historico_usuarios ls).
        calculate_profile_similarity (profile_to_dict p) (perfil_of e) < 7 / 10"
    using find_similar_users_none [OF that] by (simp add: predict_satisfaction_def)
  then show ?thesis
    by (auto simp: baseline_prediction_def)
qed

theorem predict_satisfaction_baseline_witness:
  "predict_satisfaction sistema_fuerza ejemplo_perfil (Some ejemplo_rutina) =
        \<lparr>satisfaccion_predicha = 35 / 10, confianza = 3 / 10,
         factores = no_factors\<lparr>sin_datos := Some True\<rparr>, recomendacion = True,
         usuarios_similares = 0, metodo = ''baseline''\<rparr>
   \<and> predict_satisfaction (new_learning_system :: unit learning_system) ejemplo_perfil None =
        \<lparr>satisfaccion_predicha = 35 / 10, confianza = 3 / 10,
         factores = no_factors\<lparr>sin_datos := Some True\<rparr>, recomendacion = True,
         usuarios_similares = 0, metodo = ''baseline''\<rparr>"
proof -
  have h: "\<forall>e \<in> set (historico_usuarios sistema_fuerza).
        calculate_profile_similarity (profile_to_dict ejemplo_perfil) (perfil_of e) < 7 / 10"
    using similarity_ejemplo_fuerza by (simp add: sistema_fuerza_def new_learning_system_def)
  have e: "historico_usuarios (new_learning_system :: unit learning_system) = []"
    by (simp add: new_learning_system_def)
  show ?thesis
    using h e predict_satisfaction_baseline [of sistema_fuerza ejemplo_perfil "Some ejemplo_rutina"]
      predict_satisfaction_baseline
        [of "new_learning_system :: unit learning_system" ejemplo_perfil None]
    by simp
qed






text \<open>
  C8. For a feedback history of fewer than 3 entries, the empty one included,
  \<open>detect_anomalies\<close> returns no anomaly and the state \<open>normal\<close>; it is the early
  return, taken before any check (the result has no average).
\<close>

theorem detect_anomalies_short_history:
  "length feedback_history < 3 \<longrightarrow>
     detect_anomalies p feedback_history =
       \<lparr>anomalias = [], estado = ''normal'', satisfaccion_promedio = None\<rparr>"
  by (simp add: detect_anomalies_def)

theorem detect_anomalies_short_history_witness:
  "detect_anomalies ejemplo_perfil [Some 5, Some 1] =
       \<lparr>anomalias = [], estado = ''normal'', satisfaccion_promedio = None\<rparr>
   \<and> detect_anomalies ejemplo_perfil [] =
       \<lparr>anomalias = [], estado = ''normal'', satisfaccion_promedio = None\<rparr>"
  using detect_anomalies_short_history [of "[Some 5, Some 1]" ejemplo_perfil]
    detect_anomalies_short_history [of "[]" ejemplo_perfil]
  by simp

end
